theory Spec2Isabelle
  imports
    Complex_Main
    "HOL-Library.Sublist"
    "HOL-Library.Multiset"
    "HOL-Library.List_Lexorder"
    "HOL-Library.AList"
    "HOL-Library.Log_Nat"
begin

section \<open>Python strings\<close>

text \<open>
  A Python \<open>str\<close> is a sequence of Unicode code points, and \<open>len\<close> counts code points.
  A string is therefore a list of code points (natural numbers), not of bytes.
  \<open>ascii\<close> embeds an ASCII literal.
\<close>

type_synonym pychar = nat
type_synonym pystr = "nat list"

definition ascii :: "string \<Rightarrow> pystr" where
  "ascii s = map of_char s"

text \<open>\<open>str.isspace\<close> of one code point; the regular expression class \<open>\s\<close> on \<open>str\<close>
  patterns is the same set.\<close>

definition isspace :: "pychar \<Rightarrow> bool" where
  "isspace c =
     (c \<in> set [9, 10, 11, 12, 13, 28, 29, 30, 31, 32, 133, 160, 5760,
                8232, 8233, 8239, 8287, 12288]
      \<or> (8192 \<le> c \<and> c \<le> 8202))"

text \<open>\<open>s.strip()\<close>\<close>

definition strip :: "pystr \<Rightarrow> pystr" where
  "strip s = rev (dropWhile isspace (rev (dropWhile isspace s)))"

text \<open>\<open>t in s\<close> on strings: \<open>t\<close> occurs in \<open>s\<close> as a contiguous block.\<close>

fun py_in :: "pystr \<Rightarrow> pystr \<Rightarrow> bool" where
  "py_in t [] = (t = [])"
| "py_in t (c # cs) = (prefix t (c # cs) \<or> py_in t cs)"

text \<open>\<open>d.join(xs)\<close>\<close>

fun str_join :: "pystr \<Rightarrow> pystr list \<Rightarrow> pystr" where
  "str_join d [] = []"
| "str_join d [x] = x"
| "str_join d (x # y # ys) = x @ d @ str_join d (y # ys)"

text \<open>\<open>re.split\<close> with a pattern that matches exactly one character of the class \<open>sep\<close>:
  the pieces between the separators, empty pieces included.\<close>

fun re_split :: "(pychar \<Rightarrow> bool) \<Rightarrow> pystr \<Rightarrow> pystr list" where
  "re_split sep [] = [[]]"
| "re_split sep (c # cs) =
     (if sep c then [] # re_split sep cs
      else (case re_split sep cs of
              [] \<Rightarrow> [[c]]
            | t # ts \<Rightarrow> (c # t) # ts))"

text \<open>\<open>str(n)\<close> of a natural number and of an integer, in decimal.\<close>

fun digits_of :: "nat \<Rightarrow> nat \<Rightarrow> pystr" where
  "digits_of 0 n = []"
| "digits_of (Suc fuel) n =
     (if n < 10 then [48 + n] else digits_of fuel (n div 10) @ [48 + n mod 10])"

definition str_nat :: "nat \<Rightarrow> pystr" where
  "str_nat n = digits_of (Suc n) n"

definition str_int :: "int \<Rightarrow> pystr" where
  "str_int i = (if i < 0 then 45 # str_nat (nat (- i)) else str_nat (nat i))"

section \<open>Paths\<close>

text \<open>
  A \<open>pathlib\<close> path: the anchor (drive and root; \<open>/\<close> for an absolute POSIX path, empty
  for a relative one) and the components after it.  The POSIX flavour is modelled: the
  components are joined with \<open>/\<close>.
\<close>

record path =
  anchor :: pystr
  parts :: "pystr list"

definition path_sep :: pystr where
  "path_sep = ascii ''/''"

text \<open>\<open>str(file)\<close>\<close>

definition path_str :: "path \<Rightarrow> pystr" where
  "path_str f =
     (if anchor f = [] \<and> parts f = [] then ascii ''.''
      else anchor f @ str_join path_sep (parts f))"

text \<open>\<open>file.name\<close>: the last component, empty for a bare anchor and for \<open>.\<close>\<close>

definition name :: "path \<Rightarrow> pystr" where
  "name f = (if parts f = [] then [] else last (parts f))"

text \<open>\<open>file.parents\<close>: the ancestors, nearest first, down to the bare anchor (or \<open>.\<close>).\<close>

definition parents :: "path \<Rightarrow> path list" where
  "parents f = map (\<lambda>k. f\<lparr>parts := take k (parts f)\<rparr>) (rev [0..<length (parts f)])"

text \<open>\<open>folder / rel\<close> for relative components, as \<open>rglob\<close> builds its results.\<close>

definition joinpath :: "path \<Rightarrow> pystr list \<Rightarrow> path" where
  "joinpath folder rel = folder\<lparr>parts := parts folder @ rel\<rparr>"

section \<open>Lexical path scoring\<close>

text \<open>
  \<open>DocumentSearcher._query_matches_path\<close>.  \<open>str.lower\<close> is a parameter \<open>lower\<close> of the
  model: the Unicode case tables are not part of the repository.
\<close>

definition is_sep :: "pychar \<Rightarrow> bool" where
  "is_sep c = (isspace c \<or> c \<in> set [44, 65292, 12289, 59, 65307])"

definition query_terms :: "(pystr \<Rightarrow> pystr) \<Rightarrow> pystr \<Rightarrow> pystr list" where
  "query_terms lower query =
     map (\<lambda>t. lower (strip t)) (filter (\<lambda>t. strip t \<noteq> []) (re_split is_sep query))"

text \<open>The inner \<open>for parent in file.parents: ... break ... else: ...\<close>: the increment
  it adds for one term.\<close>

fun parent_scan :: "(pystr \<Rightarrow> pystr) \<Rightarrow> pystr \<Rightarrow> path list \<Rightarrow> int" where
  "parent_scan lower t [] = 20"
| "parent_scan lower t (p # ps) =
     (if py_in t (lower (name p)) then 30 else parent_scan lower t ps)"

text \<open>The loop \<open>for term in matched\<close>, with the running \<open>relevance\<close>.\<close>

fun score_terms :: "(pystr \<Rightarrow> pystr) \<Rightarrow> path \<Rightarrow> pystr list \<Rightarrow> int \<Rightarrow> int" where
  "score_terms lower file [] relevance = relevance"
| "score_terms lower file (t # ts) relevance =
     (if py_in t (lower (name file))
      then score_terms lower file ts (relevance + 40)
      else score_terms lower file ts (relevance + parent_scan lower t (parents file)))"

definition query_matches_path ::
  "(pystr \<Rightarrow> pystr) \<Rightarrow> pystr \<Rightarrow> path \<Rightarrow> bool \<times> pystr list \<times> int" where
  "query_matches_path lower query file =
     (let path_s = lower (path_str file);
          terms = query_terms lower query;
          matched = filter (\<lambda>t. py_in t path_s) terms
      in if matched = [] then (False, [], 0)
         else (True, matched, min (score_terms lower file matched 0) 100))"

text \<open>The score of one matched term in the words of the specification: 40 when the term
  occurs in the file name, 30 when it occurs in the name of some ancestor directory, and
  20 otherwise.\<close>

definition spec_term_score :: "(pystr \<Rightarrow> pystr) \<Rightarrow> path \<Rightarrow> pystr \<Rightarrow> int" where
  "spec_term_score lower file t =
     (if py_in t (lower (name file)) then 40
      else if (\<exists>d \<in> set (parents file). py_in t (lower (name d))) then 30
      else 20)"

text \<open>ASCII lower-casing, one instance of \<open>lower\<close>.\<close>

definition ascii_lower :: "pystr \<Rightarrow> pystr" where
  "ascii_lower s = map (\<lambda>c. if 65 \<le> c \<and> c \<le> 90 then c + 32 else c) s"

section \<open>Exceptions\<close>

text \<open>
  A raised exception is a value.  \<open>ReadError\<close> is the extractor's own error type; the
  other constructors are the classes the code tells apart, and \<open>OtherException\<close> (class
  name, message) stands for any other subclass of \<open>Exception\<close> a library may raise.
  A computation that may raise returns \<open>exn + 'a\<close>, with \<open>Inl\<close> for the exception.
\<close>

datatype exn =
    ReadError pystr
  | ImportError pystr
  | TesseractError pystr
  | ZeroDivisionError pystr
  | ValueError pystr
  | OtherException pystr pystr

text \<open>\<open>str(e)\<close> and \<open>type(e).__name__\<close>\<close>

fun exn_str :: "exn \<Rightarrow> pystr" where
  "exn_str (ReadError m) = m"
| "exn_str (ImportError m) = m"
| "exn_str (TesseractError m) = m"
| "exn_str (ZeroDivisionError m) = m"
| "exn_str (ValueError m) = m"
| "exn_str (OtherException c m) = m"

fun exn_type_name :: "exn \<Rightarrow> pystr" where
  "exn_type_name (ReadError m) = ascii ''ReadError''"
| "exn_type_name (ImportError m) = ascii ''ImportError''"
| "exn_type_name (TesseractError m) = ascii ''TesseractError''"
| "exn_type_name (ZeroDivisionError m) = ascii ''ZeroDivisionError''"
| "exn_type_name (ValueError m) = ascii ''ValueError''"
| "exn_type_name (OtherException c m) = c"

fun is_ReadError :: "exn \<Rightarrow> bool" where
  "is_ReadError (ReadError m) = True"
| "is_ReadError e = False"

section \<open>The extractor (\<open>file_reader.py\<close>)\<close>

subsection \<open>PDF\<close>

text \<open>
  What \<open>pypdf\<close> does on one file is a parameter: whether the import succeeds, what
  \<open>PdfReader(str(file))\<close> gives, the reader's \<open>is_encrypted\<close> flag, whether
  \<open>decrypt('')\<close> raises (its return value is not used), what iterating \<open>reader.pages\<close>
  gives and, for each page, what \<open>extract_text()\<close> gives (\<open>None\<close> is the empty text:
  the code only tests its truth value).
\<close>

record pdf_reader =
  is_encrypted :: bool
  decrypt_empty :: "exn + unit"
  pages :: "exn + (exn + pystr) list"

record pdf_world =
  pypdf_installed :: bool
  PdfReader :: "exn + pdf_reader"

text \<open>The loop over the pages; \<open>page_num\<close> counts from the first argument.\<close>

fun page_texts :: "nat \<Rightarrow> (exn + pystr) list \<Rightarrow> pystr list" where
  "page_texts page_num [] = []"
| "page_texts page_num (Inr page_text # ps) =
     (if page_text \<noteq> [] \<and> strip page_text \<noteq> [] then [page_text] else [])
     @ page_texts (Suc page_num) ps"
| "page_texts page_num (Inl e # ps) =
     (ascii ''[Page '' @ str_nat page_num @ ascii '' error: '' @ exn_str e @ ascii '']'')
     # page_texts (Suc page_num) ps"

text \<open>\<open>except ReadError: raise\<close> followed by \<open>except Exception as e\<close> with a handler
  \<open>h\<close>.\<close>

fun on_exception :: "(exn \<Rightarrow> exn + 'a) \<Rightarrow> exn + 'a \<Rightarrow> exn + 'a" where
  "on_exception h (Inr v) = Inr v"
| "on_exception h (Inl (ReadError m)) = Inl (ReadError m)"
| "on_exception h (Inl e) = h e"

definition read_pdf_pages :: "pdf_reader \<Rightarrow> exn + pystr" where
  "read_pdf_pages reader =
     (case pages reader of
        Inl e \<Rightarrow> Inl e
      | Inr ps \<Rightarrow>
          (let text = str_join [10, 10] (page_texts 1 ps)
           in if strip text = []
              then Inl (ReadError (ascii ''No text content found (may be image-only PDF)''))
              else Inr text))"

definition read_pdf :: "pdf_world \<Rightarrow> exn + pystr" where
  "read_pdf w =
     (if \<not> pypdf_installed w
      then Inl (ReadError (ascii ''pypdf not installed. Run: pip install pypdf''))
      else on_exception (\<lambda>e. Inl (ReadError (ascii ''PDF read failed: '' @ exn_str e)))
        (case PdfReader w of
           Inl e \<Rightarrow> Inl e
         | Inr reader \<Rightarrow>
             (if is_encrypted reader
              then (case decrypt_empty reader of
                      Inl e \<Rightarrow> Inl (ReadError (ascii ''Encrypted PDF (password protected)''))
                    | Inr u \<Rightarrow> read_pdf_pages reader)
              else read_pdf_pages reader)))"

subsection \<open>Images\<close>

text \<open>
  What Pillow and pytesseract do on one file: whether the imports succeed, what
  \<open>Image.open\<close> gives, and what \<open>image_to_string\<close> gives with \<open>lang='chi_sim+eng'\<close> and
  with \<open>lang='eng'\<close>.  On Windows the code first points pytesseract at an installed
  binary; that only selects which OCR engine answers, so it is part of these outcomes.
\<close>

record image_world =
  ocr_installed :: bool
  image_open :: "exn + unit"
  ocr_chi_sim_eng :: "exn + pystr"
  ocr_eng :: "exn + pystr"

text \<open>The inner \<open>try\<close>: Chinese and English first, English alone on \<open>TesseractError\<close>.\<close>

fun ocr_text :: "image_world \<Rightarrow> exn + pystr" where
  "ocr_text w =
     (case ocr_chi_sim_eng w of
        Inl (TesseractError m) \<Rightarrow> ocr_eng w
      | r \<Rightarrow> r)"

definition read_image :: "image_world \<Rightarrow> exn + pystr" where
  "read_image w =
     (if \<not> ocr_installed w
      then Inl (ReadError
             (ascii ''OCR dependencies not installed. Run: pip install pytesseract Pillow''))
      else on_exception (\<lambda>e. Inr (ascii ''[OCR failed: '' @ exn_str e @ ascii '']''))
        (case image_open w of
           Inl e \<Rightarrow> Inl e
         | Inr img \<Rightarrow>
             (case ocr_text w of
                Inl e \<Rightarrow> Inl e
              | Inr text \<Rightarrow>
                  if text = [] \<or> strip text = []
                  then Inl (ReadError (ascii ''No text could be extracted from image''))
                  else Inr text)))"

subsection \<open>Dispatch and truncation\<close>

text \<open>
  The readers for plain text, DOCX, DOC, XLSX and XLS are not looked into: what each
  gives on a file (a text or any exception) is a parameter.
\<close>

record file_world =
  txt_result :: "exn + pystr"
  pdf_lib :: pdf_world
  docx_result :: "exn + pystr"
  doc_result :: "exn + pystr"
  xlsx_result :: "exn + pystr"
  xls_result :: "exn + pystr"
  ocr_lib :: image_world

datatype reader = ReadTxt | ReadPdf | ReadDocx | ReadDoc | ReadXlsx | ReadXls | ReadImage

definition readers :: "(pystr \<times> reader) list" where
  "readers =
     [(ascii ''.txt'', ReadTxt), (ascii ''.pdf'', ReadPdf), (ascii ''.docx'', ReadDocx),
      (ascii ''.doc'', ReadDoc), (ascii ''.xlsx'', ReadXlsx), (ascii ''.xls'', ReadXls),
      (ascii ''.jpg'', ReadImage), (ascii ''.jpeg'', ReadImage), (ascii ''.png'', ReadImage),
      (ascii ''.md'', ReadTxt)]"

fun run_reader :: "reader \<Rightarrow> file_world \<Rightarrow> exn + pystr" where
  "run_reader ReadTxt w = txt_result w"
| "run_reader ReadPdf w = read_pdf (pdf_lib w)"
| "run_reader ReadDocx w = docx_result w"
| "run_reader ReadDoc w = doc_result w"
| "run_reader ReadXlsx w = xlsx_result w"
| "run_reader ReadXls w = xls_result w"
| "run_reader ReadImage w = read_image (ocr_lib w)"

text \<open>\<open>s.rfind(c)\<close>, \<open>None\<close> for \<open>-1\<close>; and \<open>file.suffix\<close>: the file name from its last
  dot on, unless that dot is the first or the last character.\<close>

definition rfind :: "pychar \<Rightarrow> pystr \<Rightarrow> nat option" where
  "rfind c s =
     (if c \<in> set s then Some (length s - 1 - length (takeWhile (\<lambda>x. x \<noteq> c) (rev s)))
      else None)"

definition path_suffix :: "path \<Rightarrow> pystr" where
  "path_suffix f =
     (case rfind 46 (name f) of
        None \<Rightarrow> []
      | Some i \<Rightarrow> if 0 < i \<and> i + 1 < length (name f) then drop i (name f) else [])"

definition MAX_CHARS :: nat where
  "MAX_CHARS = 100000"

definition truncation_marker :: pystr where
  "truncation_marker = [10, 10] @ ascii ''[Content truncated...]''"

text \<open>\<open>DocumentReader.read\<close>\<close>

definition read :: "(pystr \<Rightarrow> pystr) \<Rightarrow> (path \<Rightarrow> file_world) \<Rightarrow> path \<Rightarrow> exn + pystr" where
  "read lower world file =
     (let ext = lower (path_suffix file) in
      case map_of readers ext of
        None \<Rightarrow> Inl (ReadError (ascii ''Unsupported format: '' @ ext))
      | Some reader \<Rightarrow>
          on_exception
            (\<lambda>e. Inl (ReadError
                   (name file @ ascii '': '' @ exn_type_name e @ ascii '': '' @ exn_str e)))
            (case run_reader reader (world file) of
               Inl e \<Rightarrow> Inl e
             | Inr text \<Rightarrow>
                 Inr (if length text > MAX_CHARS
                      then take MAX_CHARS text @ truncation_marker
                      else text)))"

section \<open>Python numbers\<close>

text \<open>
  A Python \<open>float\<close> is an IEEE 754 binary64 number: a rational with a 53-bit significand.
  \<open>fl\<close> rounds a rational to the nearest such number, ties to even; the exponent is not
  bounded here, so the model is that of binary64 away from overflow and underflow, which
  relevance scores never reach.  \<open>binade x\<close> is the exponent \<open>e\<close> with
  \<open>2^e \<le> |x| < 2^(e+1)\<close>.
\<close>

definition binade :: "rat \<Rightarrow> int" where
  "binade x =
     (let (a, b) = quotient_of \<bar>x\<bar>;
          e = int (floorlog 2 (nat a)) - int (floorlog 2 (nat b))
      in if 2 powi e \<le> \<bar>x\<bar> then e else e - 1)"

definition round_half_even :: "rat \<Rightarrow> int" where
  "round_half_even y =
     (let n = \<lfloor>y\<rfloor>; r = y - of_int n
      in if r < 1 / 2 then n
         else if 1 / 2 < r then n + 1
         else if even n then n else n + 1)"

definition fl :: "rat \<Rightarrow> rat" where
  "fl x =
     (if x = 0 then 0
      else (let u = 2 powi (binade x - 52)
            in of_int (round_half_even (x / u)) * u))"

text \<open>The literal \<open>0.3\<close>: the binary64 number nearest to three tenths.\<close>

definition float_0_3 :: rat where
  "float_0_3 = 5404319552844595 / 18014398509481984"

text \<open>\<open>float(i)\<close>, \<open>a * b\<close> and \<open>a + b\<close> on floats, and \<open>int(x)\<close>, which truncates toward
  zero.\<close>

definition float_of_int :: "int \<Rightarrow> rat" where
  "float_of_int i = fl (of_int i)"

definition float_mul :: "rat \<Rightarrow> rat \<Rightarrow> rat" where
  "float_mul a b = fl (a * b)"

definition float_add :: "rat \<Rightarrow> rat \<Rightarrow> rat" where
  "float_add a b = fl (a + b)"

definition py_int :: "rat \<Rightarrow> int" where
  "py_int x = (if 0 \<le> x then \<lfloor>x\<rfloor> else \<lceil>x\<rceil>)"

text \<open>\<open>min(100, content_relevance + (path_relevance * 0.3))\<close> with integer scores: the
  integers are converted to floats, and \<open>min\<close> gives its first argument unless the second
  is smaller.\<close>

definition combined_relevance :: "int \<Rightarrow> int \<Rightarrow> rat" where
  "combined_relevance content_relevance path_relevance =
     (let s = float_add (float_of_int content_relevance)
                (float_mul (float_of_int path_relevance) float_0_3)
      in if s < 100 then s else 100)"

section \<open>The orchestrator (\<open>search_documents.py\<close>)\<close>

subsection \<open>State and environment\<close>

text \<open>\<open>self.stats\<close>; an entry of \<open>errors\<close> is the pair of its \<open>'file'\<close> and \<open>'error'\<close>.\<close>

record stats =
  total_found :: nat
  successfully_read :: nat
  skipped :: nat
  matched :: nat
  errors :: "(pystr \<times> pystr) list"

definition initial_stats :: stats where
  "initial_stats =
     \<lparr>total_found = 0, successfully_read = 0, skipped = 0, matched = 0, errors = []\<rparr>"

text \<open>The fields of a \<open>DocumentSearcher\<close> that the search reads (\<open>verbose\<close> only switches
  the progress output).\<close>

record searcher =
  s_folder :: path
  s_query :: pystr
  s_batch_size :: int
  s_max_docs :: int

text \<open>One analysis as the semantic reasoner returns it: a dictionary in which each of
  the keys \<open>file\<close>, \<open>relevance\<close>, \<open>summary\<close> and \<open>excerpts\<close> may be absent.  Relevance
  scores are integers.\<close>

record analysis =
  a_file :: "pystr option"
  a_relevance :: "int option"
  a_summary :: "pystr option"
  a_excerpts :: "pystr list option"

text \<open>
  The world outside the program: whether a path exists and is a directory; for a glob
  pattern, the files \<open>folder.rglob\<close> finds (each by its components below the folder); for
  a file, what the libraries give on it; the answer of the semantic reasoner to a query
  and a batch of (file, content preview), which in the stand-alone script is the empty
  list; what writing a text to a path gives; and the current time as the report prints it.
\<close>

record world =
  path_exists :: "path \<Rightarrow> bool"
  path_is_dir :: "path \<Rightarrow> bool"
  rglob :: "pystr \<Rightarrow> pystr list list"
  contents :: "path \<Rightarrow> file_world"
  host_analysis :: "pystr \<Rightarrow> (pystr \<times> pystr) list \<Rightarrow> analysis list"
  write_text :: "path \<Rightarrow> pystr \<Rightarrow> exn + unit"
  utc_now :: pystr

text \<open>A result of the search.  The file is the \<open>Path\<close> of a path match or the string an
  analysis carries under \<open>file\<close>; the keys \<open>matched_terms\<close>, \<open>path_relevance\<close> and
  \<open>content_relevance\<close> are present only in some results.\<close>

datatype file_ref = FilePath path | FileKey pystr

record result =
  r_file :: "file_ref option"
  r_relevance :: "int option"
  r_summary :: "pystr option"
  r_excerpts :: "pystr list option"
  r_match_sources :: "pystr list"
  r_matched_terms :: "pystr list option"
  r_path_relevance :: "int option"
  r_content_relevance :: "int option"

text \<open>\<open>r.get('relevance', 0)\<close>\<close>

definition result_relevance :: "result \<Rightarrow> int" where
  "result_relevance r = (case r_relevance r of None \<Rightarrow> 0 | Some v \<Rightarrow> v)"

definition RELEVANCE_THRESHOLD :: int where
  "RELEVANCE_THRESHOLD = 30"

subsection \<open>Discovery\<close>

text \<open>\<open>xs[:n]\<close> for an integer \<open>n\<close>\<close>

definition py_take :: "int \<Rightarrow> 'a list \<Rightarrow> 'a list" where
  "py_take n xs = (if 0 \<le> n then take (nat n) xs else take (length xs - nat (- n)) xs)"

definition extensions :: "pystr list" where
  "extensions =
     [ascii ''.pdf'', ascii ''.docx'', ascii ''.doc'', ascii ''.xlsx'', ascii ''.xls'',
      ascii ''.txt'', ascii ''.md'', ascii ''.jpg'', ascii ''.jpeg'', ascii ''.png'']"

text \<open>Paths are ordered as the lists of their parts, the anchor first when there is
  one.\<close>

definition path_key :: "path \<Rightarrow> pystr list" where
  "path_key f = (if anchor f = [] then parts f else anchor f # parts f)"

definition discover_files :: "world \<Rightarrow> searcher \<Rightarrow> stats \<Rightarrow> path list \<times> stats" where
  "discover_files w s st =
     (let found = concat (map (\<lambda>ext. map (joinpath (s_folder s)) (rglob w (42 # ext)))
                    extensions);
          sorted_files = sort_key path_key found;
          files = (if s_max_docs s \<noteq> 0 \<and> s_max_docs s < int (length sorted_files)
                   then py_take (s_max_docs s) sorted_files
                   else sorted_files)
      in (files, st\<lparr>total_found := length files\<rparr>))"

subsection \<open>Extraction\<close>

text \<open>\<open>file.relative_to(base)\<close>\<close>

definition relative_to :: "path \<Rightarrow> path \<Rightarrow> exn + path" where
  "relative_to f base =
     (if anchor f = anchor base \<and> prefix (parts base) (parts f)
      then Inr \<lparr>anchor = [], parts = drop (length (parts base)) (parts f)\<rparr>
      else Inl (ValueError (path_str f @ ascii '' is not in the subpath of '' @ path_str base)))"

text \<open>\<open>extract_content\<close>: only \<open>ReadError\<close> is caught; any other exception goes on to the
  caller.\<close>

definition extract_content ::
  "(pystr \<Rightarrow> pystr) \<Rightarrow> world \<Rightarrow> searcher \<Rightarrow> path \<Rightarrow> stats
     \<Rightarrow> exn + ((pystr option \<times> bool) \<times> stats)" where
  "extract_content lower w s file st =
     (case read lower (contents w) file of
        Inr content \<Rightarrow> Inr ((Some content, True), st)
      | Inl (ReadError m) \<Rightarrow>
          (case relative_to file (s_folder s) of
             Inl e \<Rightarrow> Inl e
           | Inr rel \<Rightarrow>
               Inr ((None, False),
                    st\<lparr>skipped := skipped st + 1,
                       errors := errors st @ [(path_str rel, m)]\<rparr>))
      | Inl e \<Rightarrow> Inl e)"

text \<open>Step 2 of \<open>search\<close>: the loop over the files, with the documents read so far.\<close>

fun extract_all ::
  "(pystr \<Rightarrow> pystr) \<Rightarrow> world \<Rightarrow> searcher \<Rightarrow> path list \<Rightarrow> (path \<times> pystr) list \<Rightarrow> stats
     \<Rightarrow> exn + ((path \<times> pystr) list \<times> stats)" where
  "extract_all lower w s [] documents st = Inr (documents, st)"
| "extract_all lower w s (file # files) documents st =
     (case extract_content lower w s file st of
        Inl e \<Rightarrow> Inl e
      | Inr ((Some content, success), st') \<Rightarrow>
          if success \<and> strip content \<noteq> []
          then extract_all lower w s files (documents @ [(file, content)])
                 (st'\<lparr>successfully_read := successfully_read st' + 1\<rparr>)
          else extract_all lower w s files documents st'
      | Inr ((None, success), st') \<Rightarrow> extract_all lower w s files documents st')"

subsection \<open>Path matching\<close>

record path_info =
  info_file :: path
  info_path_relevance :: int
  info_matched_terms :: "pystr list"

text \<open>Step 1.5: \<open>path_match_results\<close> is a dictionary keyed by \<open>str(file)\<close>, here in the
  order of insertion.\<close>

fun path_matching ::
  "(pystr \<Rightarrow> pystr) \<Rightarrow> pystr \<Rightarrow> path list \<Rightarrow> (pystr \<times> path_info) list
     \<Rightarrow> (pystr \<times> path_info) list" where
  "path_matching lower q [] results = results"
| "path_matching lower q (file # files) results =
     (case query_matches_path lower q file of
        (is_match, matched_terms, relevance) \<Rightarrow>
          path_matching lower q files
            (if is_match
             then AList.update (path_str file)
                    \<lparr>info_file = file, info_path_relevance = relevance,
                     info_matched_terms = matched_terms\<rparr> results
             else results))"

subsection \<open>Batches and analysis\<close>

function chunks :: "nat \<Rightarrow> 'a list \<Rightarrow> 'a list list" where
  "chunks n xs = (if n = 0 \<or> xs = [] then [] else take n xs # chunks n (drop n xs))"
  by pat_completeness auto
termination
  by (relation "measure (\<lambda>(n, xs). length xs)") auto

declare chunks.simps [simp del]

text \<open>\<open>analyze_with_claude\<close>: the previews of a batch, and then the reasoner's answer
  (the script itself only prints the prompt and returns the empty list).\<close>

fun docs_info :: "path \<Rightarrow> (path \<times> pystr) list \<Rightarrow> exn + (pystr \<times> pystr) list" where
  "docs_info base [] = Inr []"
| "docs_info base ((file, content) # docs) =
     (case relative_to file base of
        Inl e \<Rightarrow> Inl e
      | Inr rel \<Rightarrow>
          (case docs_info base docs of
             Inl e \<Rightarrow> Inl e
           | Inr infos \<Rightarrow> Inr ((path_str rel, take 3000 content) # infos)))"

definition analyze_with_claude ::
  "world \<Rightarrow> searcher \<Rightarrow> (path \<times> pystr) list \<Rightarrow> exn + analysis list" where
  "analyze_with_claude w s documents =
     (case docs_info (s_folder s) documents of
        Inl e \<Rightarrow> Inl e
      | Inr infos \<Rightarrow> Inr (host_analysis w (s_query s) infos))"

fun analyze_each ::
  "world \<Rightarrow> searcher \<Rightarrow> (path \<times> pystr) list list \<Rightarrow> analysis list \<Rightarrow> exn + analysis list" where
  "analyze_each w s [] all_analyses = Inr all_analyses"
| "analyze_each w s (batch # batches) all_analyses =
     (case analyze_with_claude w s batch of
        Inl e \<Rightarrow> Inl e
      | Inr analyses \<Rightarrow> analyze_each w s batches (all_analyses @ analyses))"

text \<open>Step 3.  With documents to analyse, the progress line divides by the batch size
  before the batches are cut: a batch size of zero raises \<open>ZeroDivisionError\<close> there.  A
  negative batch size gives an empty \<open>range\<close> and no batch.\<close>

definition analyze_documents ::
  "world \<Rightarrow> searcher \<Rightarrow> (path \<times> pystr) list \<Rightarrow> exn + analysis list" where
  "analyze_documents w s documents =
     (if documents = [] then Inr []
      else if s_batch_size s = 0
      then Inl (ZeroDivisionError (ascii ''integer division or modulo by zero''))
      else analyze_each w s
             (if s_batch_size s < 0 then [] else chunks (nat (s_batch_size s)) documents)
             [])"

subsection \<open>Merging, filtering and sorting\<close>

text \<open>\<open>{a.get('file', ''): a for a in all_analyses}\<close>\<close>

definition analysis_key :: "analysis \<Rightarrow> pystr" where
  "analysis_key a = (case a_file a of None \<Rightarrow> [] | Some k \<Rightarrow> k)"

definition content_analyzed_files :: "analysis list \<Rightarrow> (pystr \<times> analysis) list" where
  "content_analyzed_files all_analyses =
     foldl (\<lambda>d a. AList.update (analysis_key a) a d) [] all_analyses"

text \<open>One round of the loop over \<open>path_match_results.items()\<close>.\<close>

definition merge_path_match ::
  "searcher \<Rightarrow> (pystr \<times> analysis) list \<Rightarrow> pystr \<times> path_info \<Rightarrow> exn + result" where
  "merge_path_match s analyzed item =
     (case item of (file_key, info) \<Rightarrow>
       (case map_of analyzed file_key of
          Some content_analysis \<Rightarrow>
            (let content_relevance =
                   (case a_relevance content_analysis of None \<Rightarrow> 0 | Some v \<Rightarrow> v);
                 path_relevance = info_path_relevance info;
                 combined = combined_relevance content_relevance path_relevance
             in Inr \<lparr>r_file = Some (FilePath (info_file info)),
                     r_relevance = Some (py_int combined),
                     r_summary =
                       Some (case a_summary content_analysis of None \<Rightarrow> [] | Some x \<Rightarrow> x),
                     r_excerpts =
                       Some (case a_excerpts content_analysis of None \<Rightarrow> [] | Some x \<Rightarrow> x),
                     r_match_sources = [ascii ''path'', ascii ''content''],
                     r_matched_terms = Some (info_matched_terms info),
                     r_path_relevance = Some path_relevance,
                     r_content_relevance = Some content_relevance\<rparr>)
        | None \<Rightarrow>
            (case relative_to (info_file info) (s_folder s) of
               Inl e \<Rightarrow> Inl e
             | Inr rel \<Rightarrow>
                 Inr \<lparr>r_file = Some (FilePath (info_file info)),
                      r_relevance = Some (info_path_relevance info),
                      r_summary =
                        Some ([25991, 20214, 47, 25991, 20214, 22841, 21517, 21253, 21547,
                               58, 32]
                              @ str_join (ascii '', '') (info_matched_terms info)),
                      r_excerpts =
                        Some [[36335, 24452, 21305, 37197, 58, 32] @ path_str rel],
                      r_match_sources = [ascii ''path''],
                      r_matched_terms = Some (info_matched_terms info),
                      r_path_relevance = None,
                      r_content_relevance = None\<rparr>)))"

fun merge_path_matches ::
  "searcher \<Rightarrow> (pystr \<times> analysis) list \<Rightarrow> (pystr \<times> path_info) list \<Rightarrow> exn + result list" where
  "merge_path_matches s analyzed [] = Inr []"
| "merge_path_matches s analyzed (item # items) =
     (case merge_path_match s analyzed item of
        Inl e \<Rightarrow> Inl e
      | Inr r \<Rightarrow>
          (case merge_path_matches s analyzed items of
             Inl e \<Rightarrow> Inl e
           | Inr rs \<Rightarrow> Inr (r # rs)))"

text \<open>The analyses of files without a path match pass through, tagged \<open>content\<close>.\<close>

definition content_only_results ::
  "(pystr \<times> path_info) list \<Rightarrow> analysis list \<Rightarrow> result list" where
  "content_only_results path_match_results all_analyses =
     map (\<lambda>a. \<lparr>r_file = map_option FileKey (a_file a),
                r_relevance = a_relevance a,
                r_summary = a_summary a,
                r_excerpts = a_excerpts a,
                r_match_sources = [ascii ''content''],
                r_matched_terms = None,
                r_path_relevance = None,
                r_content_relevance = None\<rparr>)
       (filter (\<lambda>a. map_of path_match_results (analysis_key a) = None) all_analyses)"

text \<open>Step 4: \<open>final_results\<close> before the threshold.\<close>

definition merge_results ::
  "searcher \<Rightarrow> (pystr \<times> path_info) list \<Rightarrow> analysis list \<Rightarrow> exn + result list" where
  "merge_results s path_match_results all_analyses =
     (case merge_path_matches s (content_analyzed_files all_analyses) path_match_results of
        Inl e \<Rightarrow> Inl e
      | Inr rs \<Rightarrow> Inr (rs @ content_only_results path_match_results all_analyses))"

text \<open>The threshold and \<open>matched.sort(key=..., reverse=True)\<close>: a stable sort by
  descending relevance.\<close>

definition filter_and_sort :: "result list \<Rightarrow> result list" where
  "filter_and_sort final_results =
     sort_key (\<lambda>r. - result_relevance r)
       (filter (\<lambda>r. RELEVANCE_THRESHOLD \<le> result_relevance r) final_results)"

subsection \<open>The search\<close>

text \<open>The stages of \<open>search\<close> up to the merged list \<open>final_results\<close>; the second
  component is the statistics at that point.\<close>

definition search_merged ::
  "(pystr \<Rightarrow> pystr) \<Rightarrow> world \<Rightarrow> searcher \<Rightarrow> path list \<Rightarrow> stats
     \<Rightarrow> exn + (result list \<times> stats)" where
  "search_merged lower w s files st =
     (let path_match_results = path_matching lower (s_query s) files []
      in case extract_all lower w s files [] st of
           Inl e \<Rightarrow> Inl e
         | Inr (documents, st') \<Rightarrow>
             (case analyze_documents w s documents of
                Inl e \<Rightarrow> Inl e
              | Inr all_analyses \<Rightarrow>
                  (case merge_results s path_match_results all_analyses of
                     Inl e \<Rightarrow> Inl e
                   | Inr final_results \<Rightarrow> Inr (final_results, st'))))"

definition search ::
  "(pystr \<Rightarrow> pystr) \<Rightarrow> world \<Rightarrow> searcher \<Rightarrow> stats \<Rightarrow> exn + (result list \<times> stats)" where
  "search lower w s st =
     (case discover_files w s st of
        (files, st1) \<Rightarrow>
          if files = [] then Inr ([], st1)
          else (case search_merged lower w s files st1 of
                  Inl e \<Rightarrow> Inl e
                | Inr (final_results, st2) \<Rightarrow>
                    (let matched_results = filter_and_sort final_results
                     in Inr (matched_results,
                             st2\<lparr>matched := length matched_results\<rparr>))))"

subsection \<open>The report\<close>

text \<open>\<open>Path(s)\<close> for a string, POSIX flavour: empty and \<open>.\<close> components are dropped.\<close>

definition path_of_str :: "pystr \<Rightarrow> path" where
  "path_of_str s =
     \<lparr>anchor = (if take 2 s = ascii ''//'' \<and> take 3 s \<noteq> ascii ''///'' then ascii ''//''
                else if take 1 s = ascii ''/'' then ascii ''/''
                else []),
      parts = filter (\<lambda>p. p \<noteq> [] \<and> p \<noteq> ascii ''.'') (re_split (\<lambda>c. c = 47) s)\<rparr>"

text \<open>\<open>Path(result.get('file', 'Unknown')).name\<close>\<close>

definition result_file_name :: "result \<Rightarrow> pystr" where
  "result_file_name r =
     (case r_file r of
        None \<Rightarrow> name (path_of_str (ascii ''Unknown''))
      | Some (FilePath p) \<Rightarrow> name p
      | Some (FileKey k) \<Rightarrow> name (path_of_str k))"

text \<open>The lines of one matched document, numbered \<open>i\<close>.\<close>

definition report_result :: "nat \<Rightarrow> result \<Rightarrow> pystr list" where
  "report_result i r =
     (let match_sources = r_match_sources r;
          matched_terms = (case r_matched_terms r of None \<Rightarrow> [] | Some ts \<Rightarrow> ts);
          excerpts = (case r_excerpts r of None \<Rightarrow> [] | Some es \<Rightarrow> es);
          by_path = (ascii ''path'' \<in> set match_sources);
          by_content = (ascii ''content'' \<in> set match_sources)
      in [ascii ''### '' @ str_nat i @ ascii ''. '' @ result_file_name r
            @ (if by_path then [32, 128269] else []),
          ascii ''**Relevance:** '' @ str_int (result_relevance r) @ ascii ''/100'']
         @ (if by_path
            then [ascii ''**Match Sources:** ''
                    @ str_join (ascii '', '')
                        ([[25991, 20214, 47, 25991, 20214, 22841, 21517]]
                         @ (if by_content then [[20869, 23481]] else []))]
                 @ (if matched_terms \<noteq> []
                    then [ascii ''**Matched Terms:** '' @ str_join (ascii '', '') matched_terms]
                    else [])
                 @ (if by_content
                    then [ascii ''**Score Breakdown:** '' @ [36335, 24452, 21305, 37197, 32]
                            @ str_int (case r_path_relevance r of None \<Rightarrow> 0 | Some v \<Rightarrow> v)
                            @ ascii '' + '' @ [20869, 23481, 21305, 37197, 32]
                            @ str_int (case r_content_relevance r of None \<Rightarrow> 0 | Some v \<Rightarrow> v)]
                    else [])
            else [])
         @ [ascii ''**Summary:** ''
              @ (case r_summary r of None \<Rightarrow> ascii ''No summary available.'' | Some x \<Rightarrow> x)]
         @ (if excerpts \<noteq> []
            then (10 # ascii ''**Relevant Excerpts:**'') # map (\<lambda>e. ascii ''> '' @ e) excerpts
            else [])
         @ [[10] @ ascii ''---'' @ [10]])"

fun report_results :: "nat \<Rightarrow> result list \<Rightarrow> pystr list" where
  "report_results i [] = []"
| "report_results i (r # rs) = report_result i r @ report_results (Suc i) rs"

text \<open>The section of the matched documents and the section of the skipped files.\<close>

definition matched_section :: "result list \<Rightarrow> pystr list" where
  "matched_section results =
     (if results \<noteq> [] then (ascii ''## Matched Documents'' @ [10]) # report_results 1 results
      else [])"

definition skipped_section :: "stats \<Rightarrow> pystr list" where
  "skipped_section st =
     (if errors st \<noteq> []
      then (ascii ''## Skipped Files'' @ [10])
           # map (\<lambda>(file, error). ascii ''- `'' @ file @ ascii ''` - '' @ error) (errors st)
           @ [[]]
      else [])"

text \<open>\<open>generate_report\<close>: the lines of the report, which are written to the output path
  joined by newlines.\<close>

definition generate_report :: "searcher \<Rightarrow> stats \<Rightarrow> pystr \<Rightarrow> result list \<Rightarrow> pystr list" where
  "generate_report s st now results =
     [ascii ''# Document Search Results'',
      [],
      ascii ''**Query:** `'' @ s_query s @ ascii ''`'',
      ascii ''**Folder:** `'' @ path_str (s_folder s) @ ascii ''`'',
      ascii ''**Scanned:** '' @ str_nat (total_found st) @ ascii '' documents | **Matched:** ''
        @ str_nat (matched st) @ ascii '' documents | **Skipped:** '' @ str_nat (skipped st),
      ascii ''**Generated:** '' @ now @ ascii '' UTC'',
      [],
      ascii ''---'',
      []]
     @ matched_section results
     @ [ascii ''## Statistics'' @ [10],
        ascii ''| Metric | Count |'',
        ascii ''|--------|-------|'',
        ascii ''| Total files scanned | '' @ str_nat (total_found st) @ ascii '' |'',
        ascii ''| Successfully read | '' @ str_nat (successfully_read st) @ ascii '' |'',
        ascii ''| Relevant matches ('' @ [8805] @ str_int RELEVANCE_THRESHOLD @ ascii ''%) | ''
          @ str_nat (matched st) @ ascii '' |'',
        ascii ''| Files skipped (errors) | '' @ str_nat (skipped st) @ ascii '' |'',
        []]
     @ skipped_section st
     @ [ascii ''---'', [], ascii ''*Generated by Document AI Search skill*'']"

subsection \<open>The command lines\<close>

text \<open>How a process ends: with an exit code, or with an exception nothing caught (the
  interpreter then prints a traceback).\<close>

datatype process_end = Exit int | Uncaught exn

text \<open>The parsed arguments of \<open>search_documents.py\<close>.\<close>

record args =
  arg_folder :: path
  arg_query :: pystr
  arg_output :: path
  arg_batch_size :: int
  arg_max_docs :: int

text \<open>\<open>main\<close> of \<open>search_documents.py\<close>, after \<open>parse_args\<close>.\<close>

definition main :: "(pystr \<Rightarrow> pystr) \<Rightarrow> world \<Rightarrow> args \<Rightarrow> process_end" where
  "main lower w a =
     (if \<not> path_exists w (arg_folder a) then Exit 1
      else if \<not> path_is_dir w (arg_folder a) then Exit 1
      else (let s = \<lparr>s_folder = arg_folder a, s_query = arg_query a,
                      s_batch_size = arg_batch_size a, s_max_docs = arg_max_docs a\<rparr>
            in case search lower w s initial_stats of
                 Inl e \<Rightarrow> Uncaught e
               | Inr (results, st) \<Rightarrow>
                   (case write_text w (arg_output a)
                           (str_join [10] (generate_report s st (utc_now w) results)) of
                      Inl e \<Rightarrow> Uncaught e
                    | Inr u \<Rightarrow> if results \<noteq> [] then Exit 0 else Exit 0)))"


section \<open>Notions used to state the properties\<close>

text \<open>A path lies under a base directory.\<close>

definition lies_under :: "path \<Rightarrow> path \<Rightarrow> bool" where
  "lies_under base f \<longleftrightarrow> anchor f = anchor base \<and> prefix (parts base) (parts f)"

text \<open>The string of a path relative to a base it lies under.\<close>

definition rel_str :: "path \<Rightarrow> path \<Rightarrow> pystr" where
  "rel_str base f = path_str \<lparr>anchor = [], parts = drop (length (parts base)) (parts f)\<rparr>"

text \<open>What the batch should record, file by file: an error entry for every file whose
  extraction raises \<open>ReadError\<close>, and a document for every file whose extraction gives a
  text that is not blank.\<close>

definition read_failures ::
  "(pystr \<Rightarrow> pystr) \<Rightarrow> world \<Rightarrow> searcher \<Rightarrow> path list \<Rightarrow> (pystr \<times> pystr) list" where
  "read_failures lower w s files =
     concat (map (\<lambda>f. case read lower (contents w) f of
                         Inl (ReadError m) \<Rightarrow> [(rel_str (s_folder s) f, m)]
                       | _ \<Rightarrow> []) files)"

definition readable_documents ::
  "(pystr \<Rightarrow> pystr) \<Rightarrow> world \<Rightarrow> path list \<Rightarrow> (path \<times> pystr) list" where
  "readable_documents lower w files =
     concat (map (\<lambda>f. case read lower (contents w) f of
                         Inr content \<Rightarrow> if strip content \<noteq> [] then [(f, content)] else []
                       | _ \<Rightarrow> []) files)"

section \<open>Concrete inputs\<close>

text \<open>The file \<open>/home/Budget/Report.txt\<close>.\<close>

definition ex_file :: path where
  "ex_file = \<lparr>anchor = ascii ''/'',
               parts = [ascii ''home'', ascii ''Budget'', ascii ''Report.txt'']\<rparr>"

text \<open>Library outcomes: a reader that finds no file, missing PDF and OCR packages, a
  plain-text file with a given content, a PDF file with a given reader, an image with given
  OCR outcomes.\<close>

definition missing :: "exn + pystr" where
  "missing = Inl (OtherException (ascii ''FileNotFoundError'') (ascii ''no such file''))"

definition no_pdf :: pdf_world where
  "no_pdf = \<lparr>pypdf_installed = False,
             PdfReader = Inl (ImportError (ascii ''No module named pypdf''))\<rparr>"

definition no_ocr :: image_world where
  "no_ocr = \<lparr>ocr_installed = False,
             image_open = Inl (ImportError (ascii ''No module named PIL'')),
             ocr_chi_sim_eng = Inl (ImportError (ascii ''No module named pytesseract'')),
             ocr_eng = Inl (ImportError (ascii ''No module named pytesseract''))\<rparr>"

definition text_file :: "pystr \<Rightarrow> file_world" where
  "text_file t =
     \<lparr>txt_result = Inr t, pdf_lib = no_pdf, docx_result = missing, doc_result = missing,
      xlsx_result = missing, xls_result = missing, ocr_lib = no_ocr\<rparr>"

definition pdf_file :: "pdf_reader \<Rightarrow> file_world" where
  "pdf_file r =
     \<lparr>txt_result = missing, pdf_lib = \<lparr>pypdf_installed = True, PdfReader = Inr r\<rparr>,
      docx_result = missing, doc_result = missing,
      xlsx_result = missing, xls_result = missing, ocr_lib = no_ocr\<rparr>"

definition image_file :: "image_world \<Rightarrow> file_world" where
  "image_file i =
     \<lparr>txt_result = missing, pdf_lib = no_pdf, docx_result = missing, doc_result = missing,
      xlsx_result = missing, xls_result = missing, ocr_lib = i\<rparr>"

text \<open>An encrypted PDF on which \<open>decrypt('')\<close> raises, and one that the empty password
  opens (only an owner password is set), with one page of text.\<close>

definition locked_pdf :: pdf_reader where
  "locked_pdf =
     \<lparr>is_encrypted = True,
      decrypt_empty = Inl (OtherException (ascii ''DependencyError'')
                             (ascii ''cryptography is required'')),
      pages = Inl (OtherException (ascii ''FileNotDecryptedError'')
                     (ascii ''File has not been decrypted''))\<rparr>"

definition owner_locked_pdf :: pdf_reader where
  "owner_locked_pdf =
     \<lparr>is_encrypted = True, decrypt_empty = Inr (), pages = Inr [Inr (ascii ''hello'')]\<rparr>"

text \<open>An image on which both OCR attempts fail.\<close>

definition broken_ocr :: image_world where
  "broken_ocr =
     \<lparr>ocr_installed = True, image_open = Inr (),
      ocr_chi_sim_eng = Inl (TesseractError (ascii ''chi_sim not available'')),
      ocr_eng = Inl (OtherException (ascii ''TesseractNotFoundError'')
                       (ascii ''tesseract is not installed''))\<rparr>"

definition scan_png :: path where
  "scan_png = \<lparr>anchor = [], parts = [ascii ''scan.PNG'']\<rparr>"

text \<open>The folder \<open>/data\<close> with the encrypted \<open>secret.pdf\<close> and the text file \<open>tips.txt\<close>,
  searched for \<open>secret\<close> by the stand-alone script.\<close>

definition data_folder :: path where
  "data_folder = \<lparr>anchor = ascii ''/'', parts = [ascii ''data'']\<rparr>"

definition secret_pdf :: path where
  "secret_pdf = \<lparr>anchor = ascii ''/'', parts = [ascii ''data'', ascii ''secret.pdf'']\<rparr>"

definition tips_txt :: path where
  "tips_txt = \<lparr>anchor = ascii ''/'', parts = [ascii ''data'', ascii ''tips.txt'']\<rparr>"

definition ex_world :: world where
  "ex_world =
     \<lparr>path_exists = (\<lambda>p. True),
      path_is_dir = (\<lambda>p. p = data_folder),
      rglob = (\<lambda>pat. if pat = ascii ''*.pdf'' then [[ascii ''secret.pdf'']]
                      else if pat = ascii ''*.txt'' then [[ascii ''tips.txt'']]
                      else []),
      contents = (\<lambda>f. if f = secret_pdf then pdf_file locked_pdf
                       else text_file (ascii ''hello'')),
      host_analysis = (\<lambda>q infos. []),
      write_text = (\<lambda>p t. Inr ()),
      utc_now = ascii ''2024-01-01 00:00:00''\<rparr>"

definition ex_searcher :: searcher where
  "ex_searcher =
     \<lparr>s_folder = data_folder, s_query = ascii ''secret'', s_batch_size = 5, s_max_docs = 50\<rparr>"

text \<open>The same folder with a reasoner that rates \<open>tips.txt\<close> at 90 and an unknown file at
  10.\<close>

definition ex_analyses :: "analysis list" where
  "ex_analyses =
     [\<lparr>a_file = Some (ascii ''tips.txt''), a_relevance = Some 90,
       a_summary = Some (ascii ''Tips''), a_excerpts = Some []\<rparr>,
      \<lparr>a_file = Some (ascii ''other.txt''), a_relevance = Some 10,
       a_summary = None, a_excerpts = None\<rparr>]"

definition ex_world_host :: world where
  "ex_world_host = ex_world\<lparr>host_analysis := (\<lambda>q infos. ex_analyses)\<rparr>"

text \<open>The results these searches should give.\<close>

definition secret_result :: result where
  "secret_result =
     \<lparr>r_file = Some (FilePath secret_pdf),
      r_relevance = Some 40,
      r_summary = Some ([25991, 20214, 47, 25991, 20214, 22841, 21517, 21253, 21547, 58, 32]
                        @ ascii ''secret''),
      r_excerpts = Some [[36335, 24452, 21305, 37197, 58, 32] @ ascii ''secret.pdf''],
      r_match_sources = [ascii ''path''],
      r_matched_terms = Some [ascii ''secret''],
      r_path_relevance = None,
      r_content_relevance = None\<rparr>"

definition tips_result :: result where
  "tips_result =
     \<lparr>r_file = Some (FileKey (ascii ''tips.txt'')),
      r_relevance = Some 90,
      r_summary = Some (ascii ''Tips''),
      r_excerpts = Some [],
      r_match_sources = [ascii ''content''],
      r_matched_terms = None,
      r_path_relevance = None,
      r_content_relevance = None\<rparr>"

definition ex_stats :: stats where
  "ex_stats =
     \<lparr>total_found = 2, successfully_read = 1, skipped = 1, matched = 1,
      errors = [(ascii ''secret.pdf'', ascii ''Encrypted PDF (password protected)'')]\<rparr>"

text \<open>Arguments of the search command line: the folder \<open>/data\<close>, a query that matches
  nothing.\<close>

definition ex_args :: args where
  "ex_args = \<lparr>arg_folder = data_folder, arg_query = ascii ''nothing'',
              arg_output = \<lparr>anchor = [], parts = [ascii ''search_results.md'']\<rparr>,
              arg_batch_size = 5, arg_max_docs = 50\<rparr>"



section \<open>Properties of the lexical path scoring\<close>

lemmas string_eval = ascii_def is_sep_def isspace_def strip_def ascii_lower_def

lemmas path_eval = path_str_def path_sep_def name_def

lemma parent_scan_eq:
  "parent_scan lower t ps = (if (\<exists>d \<in> set ps. py_in t (lower (name d))) then 30 else 20)"
  by (induction ps) auto

lemma score_terms_sum:
  "score_terms lower file ts acc = acc + sum_list (map (spec_term_score lower file) ts)"
  by (induction ts arbitrary: acc) (simp_all add: spec_term_score_def parent_scan_eq)

lemma query_matches_path_matched:
  "fst (snd (query_matches_path lower query file)) =
     filter (\<lambda>t. py_in t (lower (path_str file))) (query_terms lower query)"
  by (simp add: query_matches_path_def Let_def)

lemma query_matches_path_relevance:
  "snd (snd (query_matches_path lower query file)) =
     min 100 (sum_list (map (spec_term_score lower file)
                (fst (snd (query_matches_path lower query file)))))"
  by (simp add: query_matches_path_def Let_def score_terms_sum min.commute)

lemma name_in_parents:
  assumes "parts file = ds @ [d, fn]"
  shows "\<exists>p \<in> set (parents file). name p = d"
proof -
  let ?p = "file\<lparr>parts := take (Suc (length ds)) (parts file)\<rparr>"
  have "Suc (length ds) < length (parts file)" using assms by simp
  then have "?p \<in> set (parents file)" unfolding parents_def by auto
  moreover have "name ?p = d" using assms by (simp add: name_def)
  ultimately show ?thesis by blast
qed

lemma single_term_filename:
  assumes "query_terms lower query = [t]" "py_in t (lower (path_str file))"
    "py_in t (lower (name file))"
  shows "query_matches_path lower query file = (True, [t], 40)"
  using assms by (simp add: query_matches_path_def Let_def)

lemma single_term_parent:
  assumes "query_terms lower query = [t]" "py_in t (lower (path_str file))"
    "\<not> py_in t (lower (name file))" "parts file = ds @ [d, fn]" "py_in t (lower d)"
  shows "query_matches_path lower query file = (True, [t], 30)"
proof -
  from name_in_parents[OF assms(4)] assms(5)
  have "\<exists>p \<in> set (parents file). py_in t (lower (name p))" by auto
  then have "parent_scan lower t (parents file) = 30" by (simp add: parent_scan_eq)
  with assms(1-3) show ?thesis by (simp add: query_matches_path_def Let_def)
qed

text \<open>
  Claim C1.  The terms that match are the query terms that occur in the lower-cased path
  string, in the order of the query; the relevance is the sum over the matched terms of
  40 (term in the file name), 30 (else, term in the name of an ancestor directory) or 20
  (otherwise), capped at 100.  In particular a query of one term that occurs in the file
  name scores exactly 40, and one whose term is not in the file name but in the name of
  the immediate parent directory scores 30.
\<close>

theorem path_score_per_term:
  "fst (snd (query_matches_path lower query file)) =
     filter (\<lambda>t. py_in t (lower (path_str file))) (query_terms lower query)
   \<and> snd (snd (query_matches_path lower query file)) =
       min 100 (sum_list (map (spec_term_score lower file)
                  (fst (snd (query_matches_path lower query file)))))
   \<and> (query_terms lower query = [t] \<and> py_in t (lower (path_str file))
        \<and> py_in t (lower (name file))
       \<longrightarrow> query_matches_path lower query file = (True, [t], 40))
   \<and> (query_terms lower query = [t] \<and> py_in t (lower (path_str file))
        \<and> \<not> py_in t (lower (name file)) \<and> parts file = ds @ [d, fn] \<and> py_in t (lower d)
       \<longrightarrow> query_matches_path lower query file = (True, [t], 30))"
  using query_matches_path_matched query_matches_path_relevance
    single_term_filename single_term_parent by blast

theorem path_score_per_term_witness:
  "query_matches_path ascii_lower (ascii ''REPORT'') ex_file = (True, [ascii ''report''], 40)
   \<and> query_matches_path ascii_lower (ascii ''budget'') ex_file = (True, [ascii ''budget''], 30)"
proof
  have "query_terms ascii_lower (ascii ''REPORT'') = [ascii ''report'']"
    by (simp add: query_terms_def string_eval)
  moreover have "py_in (ascii ''report'') (ascii_lower (path_str ex_file))"
    by (simp add: string_eval path_eval ex_file_def)
  moreover have "py_in (ascii ''report'') (ascii_lower (name ex_file))"
    by (simp add: string_eval path_eval ex_file_def)
  ultimately show
    "query_matches_path ascii_lower (ascii ''REPORT'') ex_file = (True, [ascii ''report''], 40)"
    using path_score_per_term[of ascii_lower "ascii ''REPORT''" ex_file "ascii ''report''"]
    by blast
next
  have "query_terms ascii_lower (ascii ''budget'') = [ascii ''budget'']"
    by (simp add: query_terms_def string_eval)
  moreover have "py_in (ascii ''budget'') (ascii_lower (path_str ex_file))"
    by (simp add: string_eval path_eval ex_file_def)
  moreover have "\<not> py_in (ascii ''budget'') (ascii_lower (name ex_file))"
    by (simp add: string_eval path_eval ex_file_def)
  moreover have "parts ex_file = [ascii ''home''] @ [ascii ''Budget'', ascii ''Report.txt'']"
    by (simp add: ex_file_def)
  moreover have "py_in (ascii ''budget'') (ascii_lower (ascii ''Budget''))"
    by (simp add: string_eval)
  ultimately show
    "query_matches_path ascii_lower (ascii ''budget'') ex_file = (True, [ascii ''budget''], 30)"
    using path_score_per_term[of ascii_lower "ascii ''budget''" ex_file "ascii ''budget''"
        "[ascii ''home'']" "ascii ''Budget''" "ascii ''Report.txt''"]
    by blast
qed

section \<open>Properties of the extractor\<close>

lemma on_exception_Inr_iff:
  "on_exception h r = Inr v \<longleftrightarrow>
     r = Inr v \<or> (\<exists>e. r = Inl e \<and> \<not> is_ReadError e \<and> h e = Inr v)"
  by (cases "(h, r)" rule: on_exception.cases) auto

lemma on_exception_to_ReadError:
  assumes "\<And>e. \<exists>m. h e = Inl (ReadError m)"
  shows "(\<exists>v. on_exception h r = Inr v) \<or> (\<exists>m. on_exception h r = Inl (ReadError m))"
  using assms by (cases "(h, r)" rule: on_exception.cases) auto

lemma read_text_or_ReadError:
  "(\<exists>text. read lower world file = Inr text) \<or> (\<exists>m. read lower world file = Inl (ReadError m))"
proof (cases "map_of readers (lower (path_suffix file))")
  case None
  then show ?thesis by (simp add: read_def)
next
  case (Some reader)
  define h :: "exn \<Rightarrow> exn + pystr" where
    "h = (\<lambda>e. Inl (ReadError
            (name file @ ascii '': '' @ exn_type_name e @ ascii '': '' @ exn_str e)))"
  have "\<exists>r. read lower world file = on_exception h r"
    using Some by (auto simp: read_def Let_def h_def)
  moreover have "\<And>e. \<exists>m. h e = Inl (ReadError m)" by (simp add: h_def)
  ultimately show ?thesis using on_exception_to_ReadError[of h] by metis
qed

lemma read_Inr_iff:
  "read lower world file = Inr text \<longleftrightarrow>
     (\<exists>reader raw. map_of readers (lower (path_suffix file)) = Some reader
        \<and> run_reader reader (world file) = Inr raw
        \<and> text = (if MAX_CHARS < length raw then take MAX_CHARS raw @ truncation_marker
                   else raw))"
  by (auto simp: read_def Let_def on_exception_Inr_iff split: option.splits sum.splits)

lemma read_length_bound:
  assumes "read lower world file = Inr text"
  shows "length text \<le> MAX_CHARS + length truncation_marker"
proof -
  from assms obtain raw where
    "text = (if MAX_CHARS < length raw then take MAX_CHARS raw @ truncation_marker else raw)"
    unfolding read_Inr_iff by blast
  then show ?thesis by (simp split: if_splits)
qed






section \<open>Properties of the floating-point model\<close>






















section \<open>Properties of the orchestrator\<close>

lemma relative_to_under:
  "lies_under base f \<Longrightarrow> relative_to f base = Inr \<lparr>anchor = [], parts = drop (length (parts base)) (parts f)\<rparr>"
  by (simp add: relative_to_def lies_under_def)

lemma under_joinpath: "lies_under base (joinpath base rel)"
  by (simp add: lies_under_def joinpath_def)

lemma set_py_take: "set (py_take n xs) \<subseteq> set xs"
  by (auto simp: py_take_def dest: in_set_takeD)

lemma discover_files_under:
  assumes "f \<in> set (fst (discover_files w s st))"
  shows "lies_under (s_folder s) f"
proof -
  let ?found = "concat (map (\<lambda>ext. map (joinpath (s_folder s)) (rglob w (42 # ext))) extensions)"
  have "set (fst (discover_files w s st)) \<subseteq> set ?found"
    using set_py_take[of "s_max_docs s" "sort_key path_key ?found"]
    by (auto simp: discover_files_def Let_def)
  with assms have "f \<in> set ?found" by blast
  then show ?thesis by (auto simp: under_joinpath)
qed

lemma extract_content_under:
  assumes "lies_under (s_folder s) f"
  shows "extract_content lower w s f st =
     (case read lower (contents w) f of
        Inr content \<Rightarrow> Inr ((Some content, True), st)
      | Inl e \<Rightarrow> Inr ((None, False),
          st\<lparr>skipped := skipped st + 1,
             errors := errors st @ [(rel_str (s_folder s) f, exn_str e)]\<rparr>))"
  using read_text_or_ReadError[of lower "contents w" f]
  by (auto simp: extract_content_def relative_to_under[OF assms] rel_str_def)

lemma extract_all_eq:
  assumes "\<forall>f \<in> set files. lies_under (s_folder s) f"
  shows "extract_all lower w s files documents st =
     Inr (documents @ readable_documents lower w files,
          st\<lparr>successfully_read :=
                successfully_read st + length (readable_documents lower w files),
             skipped := skipped st + length (read_failures lower w s files),
             errors := errors st @ read_failures lower w s files\<rparr>)"
  using assms
proof (induction files arbitrary: documents st)
  case Nil
  then show ?case by (simp add: readable_documents_def read_failures_def)
next
  case (Cons f files)
  have u: "lies_under (s_folder s) f" and us: "\<forall>f \<in> set files. lies_under (s_folder s) f"
    using Cons.prems by simp_all
  note IH = Cons.IH[OF us]
  from read_text_or_ReadError[of lower "contents w" f]
  consider (ok) content where "read lower (contents w) f = Inr content"
    | (err) m where "read lower (contents w) f = Inl (ReadError m)" by blast
  then show ?case
  proof cases
    case ok
    then show ?thesis
      by (simp add: extract_content_under[OF u] IH readable_documents_def read_failures_def)
  next
    case err
    then show ?thesis
      by (simp add: extract_content_under[OF u] IH readable_documents_def read_failures_def)
  qed
qed

lemma readable_documents_files:
  "(f, c) \<in> set (readable_documents lower w files) \<Longrightarrow> f \<in> set files"
  by (auto simp: readable_documents_def split: sum.splits if_splits)

lemma docs_info_ok:
  "\<forall>d \<in> set docs. lies_under base (fst d) \<Longrightarrow> \<exists>infos. docs_info base docs = Inr infos"
proof (induction docs)
  case Nil
  then show ?case by simp
next
  case (Cons d docs)
  obtain f c where d: "d = (f, c)" by (cases d)
  from Cons obtain infos where "docs_info base docs = Inr infos" by auto
  moreover have "lies_under base f" using Cons.prems d by simp
  ultimately show ?case by (simp add: d relative_to_under)
qed

lemma analyze_each_ok:
  "\<forall>batch \<in> set batches. \<forall>d \<in> set batch. lies_under (s_folder s) (fst d)
     \<Longrightarrow> \<exists>all. analyze_each w s batches acc = Inr all"
proof (induction batches arbitrary: acc)
  case Nil
  then show ?case by simp
next
  case (Cons batch batches)
  then have "\<forall>d \<in> set batch. lies_under (s_folder s) (fst d)" by simp
  from docs_info_ok[OF this] obtain infos where "docs_info (s_folder s) batch = Inr infos" ..
  then show ?case using Cons by (simp add: analyze_with_claude_def)
qed

lemma chunks_subset: "b \<in> set (chunks n xs) \<Longrightarrow> set b \<subseteq> set xs"
proof (induction n xs rule: chunks.induct)
  case (1 n xs)
  show ?case
  proof (cases "n = 0 \<or> xs = []")
    case True
    then show ?thesis using "1.prems" by (simp add: chunks.simps)
  next
    case False
    then have "chunks n xs = take n xs # chunks n (drop n xs)"
      by (subst chunks.simps) simp
    with "1.prems" have "b = take n xs \<or> b \<in> set (chunks n (drop n xs))" by simp
    then show ?thesis
    proof
      assume "b = take n xs"
      then show ?thesis by (auto dest: in_set_takeD)
    next
      assume "b \<in> set (chunks n (drop n xs))"
      from "1.IH"[OF False this] show ?thesis by (auto dest: in_set_dropD)
    qed
  qed
qed

lemma analyze_documents_ok:
  assumes "s_batch_size s \<noteq> 0 \<or> docs = []" "\<forall>d \<in> set docs. lies_under (s_folder s) (fst d)"
  shows "\<exists>all. analyze_documents w s docs = Inr all"
proof (cases "docs = []")
  case True
  then show ?thesis by (simp add: analyze_documents_def)
next
  case False
  let ?batches = "if s_batch_size s < 0 then [] else chunks (nat (s_batch_size s)) docs"
  have "\<forall>batch \<in> set ?batches. \<forall>d \<in> set batch. lies_under (s_folder s) (fst d)"
  proof (intro ballI)
    fix batch d
    assume b: "batch \<in> set ?batches" and d: "d \<in> set batch"
    from b have "batch \<in> set (chunks (nat (s_batch_size s)) docs)"
      by (auto split: if_splits)
    from chunks_subset[OF this] d have "d \<in> set docs" by blast
    then show "lies_under (s_folder s) (fst d)" using assms(2) by blast
  qed
  from analyze_each_ok[OF this] show ?thesis
    using False assms(1) by (simp add: analyze_documents_def)
qed

lemma set_AList_update: "set (AList.update k v al) \<subseteq> insert (k, v) (set al)"
  by (induction al) auto

lemma path_matching_sound:
  assumes "(k, info) \<in> set (path_matching lower q files acc)"
  shows "(k, info) \<in> set acc
     \<or> (info_file info \<in> set files \<and> k = path_str (info_file info)
         \<and> query_matches_path lower q (info_file info)
             = (True, info_matched_terms info, info_path_relevance info))"
  using assms
proof (induction files arbitrary: acc)
  case Nil
  then show ?case by simp
next
  case (Cons f files)
  obtain is_match terms rel where qm: "query_matches_path lower q f = (is_match, terms, rel)"
    by (cases "query_matches_path lower q f")
  let ?info = "\<lparr>info_file = f, info_path_relevance = rel, info_matched_terms = terms\<rparr>"
  let ?acc = "if is_match then AList.update (path_str f) ?info acc else acc"
  from Cons.prems have "(k, info) \<in> set (path_matching lower q files ?acc)"
    by (simp add: qm)
  from Cons.IH[OF this] show ?case
  proof
    assume "(k, info) \<in> set ?acc"
    then have "(k, info) \<in> set acc \<or> (is_match \<and> k = path_str f \<and> info = ?info)"
      using set_AList_update[of "path_str f" ?info acc] by (auto split: if_splits)
    then show ?thesis using qm by auto
  next
    assume "info_file info \<in> set files \<and> k = path_str (info_file info)
         \<and> query_matches_path lower q (info_file info)
             = (True, info_matched_terms info, info_path_relevance info)"
    then show ?thesis by simp
  qed
qed

lemma merge_path_matches_ok:
  "\<forall>item \<in> set items. lies_under (s_folder s) (info_file (snd item))
     \<Longrightarrow> \<exists>rs. merge_path_matches s analyzed items = Inr rs"
proof (induction items)
  case Nil
  then show ?case by simp
next
  case (Cons item items)
  obtain k info where item: "item = (k, info)" by (cases item)
  have "lies_under (s_folder s) (info_file info)" using Cons.prems item by simp
  then have "\<exists>r. merge_path_match s analyzed item = Inr r"
    by (simp add: merge_path_match_def item relative_to_under Let_def split: option.splits)
  moreover from Cons obtain rs where "merge_path_matches s analyzed items = Inr rs" by auto
  ultimately show ?case by auto
qed

lemma search_merged_ok:
  assumes "\<forall>f \<in> set files. lies_under (s_folder s) f"
    and "s_batch_size s \<noteq> 0 \<or> readable_documents lower w files = []"
  shows "\<exists>final_results.
     search_merged lower w s files st =
       Inr (final_results,
            st\<lparr>successfully_read :=
                  successfully_read st + length (readable_documents lower w files),
               skipped := skipped st + length (read_failures lower w s files),
               errors := errors st @ read_failures lower w s files\<rparr>)"
proof -
  let ?docs = "readable_documents lower w files"
  have "\<forall>d \<in> set ?docs. lies_under (s_folder s) (fst d)"
    using assms(1) readable_documents_files by fastforce
  from analyze_documents_ok[OF assms(2) this]
  obtain all where all: "analyze_documents w s ?docs = Inr all" ..
  have "\<forall>item \<in> set (path_matching lower (s_query s) files []).
          lies_under (s_folder s) (info_file (snd item))"
    using path_matching_sound[of _ _ lower "s_query s" files "[]"] assms(1) by fastforce
  from merge_path_matches_ok[OF this]
  obtain rs where
    "merge_path_matches s (content_analyzed_files all)
       (path_matching lower (s_query s) files []) = Inr rs" ..
  then show ?thesis
    by (simp add: search_merged_def extract_all_eq[OF assms(1)] all merge_results_def)
qed

lemma search_merged_Nil: "search_merged lower w s [] st = Inr ([], st)"
  by (simp add: search_merged_def analyze_documents_def merge_results_def
      content_analyzed_files_def content_only_results_def)

lemma filter_and_sort_mset:
  "mset (filter_and_sort rs) =
     filter_mset (\<lambda>r. RELEVANCE_THRESHOLD \<le> result_relevance r) (mset rs)"
  by (simp add: filter_and_sort_def)

lemma filter_and_sort_sorted:
  "sorted_wrt (\<lambda>a b. result_relevance b \<le> result_relevance a) (filter_and_sort rs)"
proof -
  let ?key = "\<lambda>r. - result_relevance r"
  have "sorted (map ?key (filter_and_sort rs))"
    unfolding filter_and_sort_def by (rule sorted_sort_key)
  then show ?thesis by (simp add: sorted_map)
qed

lemma search_unfold:
  "search lower w s st =
     (case search_merged lower w s (fst (discover_files w s st)) (snd (discover_files w s st)) of
        Inl e \<Rightarrow> Inl e
      | Inr (final_results, st2) \<Rightarrow>
          Inr (filter_and_sort final_results,
               if fst (discover_files w s st) = [] then st2
               else st2\<lparr>matched := length (filter_and_sort final_results)\<rparr>))"
  by (cases "discover_files w s st")
     (auto simp: search_def search_merged_Nil filter_and_sort_def Let_def
           split: sum.splits prod.splits)

lemma search_returns:
  assumes "s_batch_size s \<noteq> 0"
  shows "\<exists>results st'. search lower w s st = Inr (results, st')
     \<and> errors st' = errors st @ read_failures lower w s (fst (discover_files w s st))
     \<and> skipped st' = skipped st + length (read_failures lower w s (fst (discover_files w s st)))
     \<and> successfully_read st' =
         successfully_read st + length (readable_documents lower w (fst (discover_files w s st)))"
proof -
  let ?files = "fst (discover_files w s st)"
  let ?st1 = "snd (discover_files w s st)"
  have st1: "?st1 = st\<lparr>total_found := length ?files\<rparr>"
    by (simp add: discover_files_def Let_def)
  have u: "\<forall>f \<in> set ?files. lies_under (s_folder s) f"
    using discover_files_under by blast
  from search_merged_ok[OF u, of lower w ?st1] assms
  obtain final_results where
    "search_merged lower w s ?files ?st1 =
       Inr (final_results,
            ?st1\<lparr>successfully_read :=
                  successfully_read ?st1 + length (readable_documents lower w ?files),
               skipped := skipped ?st1 + length (read_failures lower w s ?files),
               errors := errors ?st1 @ read_failures lower w s ?files\<rparr>)"
    by blast
  then show ?thesis by (simp add: search_unfold st1)
qed













lemma main_Exit_codes: "main lower w a = Exit c \<Longrightarrow> c = 0 \<or> c = 1"
  by (auto simp: main_def Let_def split: if_splits sum.splits prod.splits)



section \<open>Terms that occur in the path of the search folder\<close>












section \<open>Evaluation of the concrete inputs\<close>

lemmas reader_eval = read_def path_suffix_def rfind_def readers_def read_pdf_def
  read_pdf_pages_def read_image_def MAX_CHARS_def truncation_marker_def

lemmas example_eval = ex_world_def ex_searcher_def data_folder_def secret_pdf_def
  tips_txt_def text_file_def pdf_file_def image_file_def locked_pdf_def owner_locked_pdf_def
  broken_ocr_def no_pdf_def no_ocr_def missing_def scan_png_def ex_file_def

lemma chunks_Nil: "chunks n [] = []"
  by (subst chunks.simps) simp

lemma chunks_short: "0 < n \<Longrightarrow> xs \<noteq> [] \<Longrightarrow> length xs \<le> n \<Longrightarrow> chunks n xs = [xs]"
  by (subst chunks.simps) (simp add: chunks_Nil)

lemmas search_eval = search_def search_merged_def discover_files_def extensions_def
  joinpath_def path_key_def py_take_def extract_content_def relative_to_def
  analyze_documents_def analyze_with_claude_def merge_results_def merge_path_match_def
  content_analyzed_files_def content_only_results_def analysis_key_def filter_and_sort_def
  result_relevance_def RELEVANCE_THRESHOLD_def query_matches_path_def query_terms_def
  parents_def initial_stats_def chunks_Nil chunks_short

lemma ex_search:
  "search ascii_lower ex_world ex_searcher initial_stats = Inr ([secret_result], ex_stats)"
  by (simp add: search_eval reader_eval example_eval string_eval path_eval
      secret_result_def ex_stats_def)

lemma ex_search_host:
  "search ascii_lower ex_world_host ex_searcher initial_stats
     = Inr ([tips_result, secret_result], ex_stats\<lparr>matched := 2\<rparr>)"
  by (simp add: search_eval reader_eval example_eval string_eval path_eval
      secret_result_def tips_result_def ex_stats_def ex_world_host_def ex_analyses_def)


text \<open>A batch size of zero: with one readable document the search raises
  \<open>ZeroDivisionError\<close>, which nothing catches.\<close>

lemma main_batch_size_zero:
  "main ascii_lower ex_world (ex_args\<lparr>arg_batch_size := 0\<rparr>)
     = Uncaught (ZeroDivisionError (ascii ''integer division or modulo by zero''))"
  by (simp add: main_def ex_args_def search_eval reader_eval example_eval string_eval path_eval)


section \<open>Properties of the merge\<close>









section \<open>Truncation of extracted text\<close>

text \<open>
  Claim C3.  A text returned by \<open>read\<close> is never longer than \<open>MAX_CHARS\<close> (100000) plus
  the length of the truncation marker (24).  When the reader chosen for the file gives a
  raw text longer than \<open>MAX_CHARS\<close>, the result is its first \<open>MAX_CHARS\<close> characters followed
  by the marker; a raw text within the ceiling is returned as it is.
\<close>

theorem read_truncates:
  "(read lower world file = Inr text \<longrightarrow> length text \<le> MAX_CHARS + length truncation_marker)
   \<and> (map_of readers (lower (path_suffix file)) = Some reader
        \<and> run_reader reader (world file) = Inr raw \<and> MAX_CHARS < length raw
       \<longrightarrow> read lower world file = Inr (take MAX_CHARS raw @ truncation_marker))
   \<and> (map_of readers (lower (path_suffix file)) = Some reader
        \<and> run_reader reader (world file) = Inr raw \<and> length raw \<le> MAX_CHARS
       \<longrightarrow> read lower world file = Inr raw)
   \<and> MAX_CHARS = 100000 \<and> length truncation_marker = 24"
  using read_length_bound[of lower world "file" "text"]
  by (auto simp: read_Inr_iff MAX_CHARS_def truncation_marker_def ascii_def)
theorem read_truncates_witness:
  "read ascii_lower (\<lambda>f. text_file (replicate 100001 97)) ex_file
     = Inr (replicate 100000 97 @ truncation_marker)
   \<and> length (replicate 100000 (97::nat) @ truncation_marker) \<le> 100024"
proof -
  let ?world = "\<lambda>f::path. text_file (replicate 100001 97)"
  have r: "map_of readers (ascii_lower (path_suffix ex_file)) = Some ReadTxt"
    by (simp add: reader_eval example_eval string_eval path_eval)
  have raw: "run_reader ReadTxt (?world ex_file) = Inr (replicate 100001 97)"
    by (simp add: text_file_def)
  have long: "MAX_CHARS < length (replicate 100001 (97::nat))"
    by (simp add: MAX_CHARS_def)
  from read_truncates[of ascii_lower ?world ex_file
      "replicate 100000 97 @ truncation_marker" ReadTxt "replicate 100001 97"] r raw long
  have "read ascii_lower ?world ex_file = Inr (take MAX_CHARS (replicate 100001 97) @ truncation_marker)"
    and "read ascii_lower ?world ex_file = Inr (replicate 100000 97 @ truncation_marker)
      \<longrightarrow> length (replicate 100000 (97::nat) @ truncation_marker)
           \<le> MAX_CHARS + length truncation_marker"
    and "MAX_CHARS = 100000" and "length truncation_marker = 24"
    by blast+
  then show ?thesis by simp
qed


section \<open>OCR failures\<close>




section \<open>Errors of single files\<close>

text \<open>
  Claim C7.  \<open>read\<close> on any file, of a supported extension or not, either returns a text or
  raises \<open>ReadError\<close>, whatever the format readers and libraries do.  The extraction loop
  of the search, run on the discovered files, never stops at a file: it returns normally,
  with an error entry for exactly the files whose extraction raised and a document for
  exactly the files that gave a text that is not blank, in the order of the files.  With a
  batch size other than zero the whole search returns normally with those error entries.
\<close>

theorem extraction_errors_are_collected:
  "((\<exists>text. read lower (contents w) file = Inr text)
      \<or> (\<exists>m. read lower (contents w) file = Inl (ReadError m)))
   \<and> extract_all lower w s (fst (discover_files w s st)) [] st1 =
       Inr (readable_documents lower w (fst (discover_files w s st)),
            st1\<lparr>successfully_read :=
                   successfully_read st1
                   + length (readable_documents lower w (fst (discover_files w s st))),
                skipped :=
                   skipped st1 + length (read_failures lower w s (fst (discover_files w s st))),
                errors := errors st1 @ read_failures lower w s (fst (discover_files w s st))\<rparr>)
   \<and> (s_batch_size s \<noteq> 0 \<longrightarrow>
        (\<exists>results st'. search lower w s st = Inr (results, st')
           \<and> errors st' = errors st @ read_failures lower w s (fst (discover_files w s st))))"
proof -
  have u: "\<forall>f \<in> set (fst (discover_files w s st)). lies_under (s_folder s) f"
    using discover_files_under by blast
  show ?thesis
    using read_text_or_ReadError[of lower "contents w" "file"]
      extract_all_eq[OF u, of lower w "[]" st1] search_returns[of s lower w st]
    by auto
qed

theorem extraction_errors_are_collected_witness:
  "extract_all ascii_lower ex_world ex_searcher [secret_pdf, tips_txt] [] initial_stats =
     Inr ([(tips_txt, ascii ''hello'')],
          \<lparr>total_found = 0, successfully_read = 1, skipped = 1, matched = 0,
           errors = [(ascii ''secret.pdf'', ascii ''Encrypted PDF (password protected)'')]\<rparr>)
   \<and> search ascii_lower ex_world ex_searcher initial_stats = Inr ([secret_result], ex_stats)"
proof -
  have files: "fst (discover_files ex_world ex_searcher initial_stats) = [secret_pdf, tips_txt]"
    by (simp add: search_eval example_eval string_eval)
  have docs: "readable_documents ascii_lower ex_world [secret_pdf, tips_txt]
      = [(tips_txt, ascii ''hello'')]"
    by (simp add: readable_documents_def reader_eval example_eval string_eval path_eval)
  have errs: "read_failures ascii_lower ex_world ex_searcher [secret_pdf, tips_txt]
      = [(ascii ''secret.pdf'', ascii ''Encrypted PDF (password protected)'')]"
    by (simp add: read_failures_def rel_str_def reader_eval example_eval string_eval path_eval)
  have bs: "s_batch_size ex_searcher \<noteq> 0" by (simp add: ex_searcher_def)
  from extraction_errors_are_collected[of ascii_lower ex_world secret_pdf ex_searcher
      initial_stats initial_stats] bs
  have "extract_all ascii_lower ex_world ex_searcher [secret_pdf, tips_txt] [] initial_stats =
     Inr ([(tips_txt, ascii ''hello'')],
          \<lparr>total_found = 0, successfully_read = 1, skipped = 1, matched = 0,
           errors = [(ascii ''secret.pdf'', ascii ''Encrypted PDF (password protected)'')]\<rparr>)"
    unfolding files docs errs by (simp add: initial_stats_def)
  then show ?thesis using ex_search by simp
qed


section \<open>Threshold and order of the results\<close>

text \<open>
  Claim C4.  When the search returns, its result list is the merged list \<open>final_results\<close>
  cut down to the results whose relevance is at least 30, each as often as it occurs
  there and whatever its match sources, and it is in descending order of relevance.
\<close>

theorem search_threshold_sorted:
  assumes "search lower w s st = Inr (results, st')"
  shows "\<exists>final_results st2.
     search_merged lower w s (fst (discover_files w s st)) (snd (discover_files w s st))
       = Inr (final_results, st2)
     \<and> mset results = filter_mset (\<lambda>r. 30 \<le> result_relevance r) (mset final_results)
     \<and> sorted_wrt (\<lambda>a b. result_relevance b \<le> result_relevance a) results"
proof -
  from assms obtain final_results st2 where
    m: "search_merged lower w s (fst (discover_files w s st)) (snd (discover_files w s st))
       = Inr (final_results, st2)" and r: "results = filter_and_sort final_results"
    by (auto simp: search_unfold split: sum.splits prod.splits)
  have "mset results = filter_mset (\<lambda>r. 30 \<le> result_relevance r) (mset final_results)"
    using filter_and_sort_mset[of final_results] by (simp add: r RELEVANCE_THRESHOLD_def)
  moreover have "sorted_wrt (\<lambda>a b. result_relevance b \<le> result_relevance a) results"
    unfolding r by (rule filter_and_sort_sorted)
  ultimately show ?thesis using m by blast
qed

theorem search_threshold_sorted_witness:
  "search ascii_lower ex_world_host ex_searcher initial_stats
     = Inr ([tips_result, secret_result], ex_stats\<lparr>matched := 2\<rparr>)
   \<and> sorted_wrt (\<lambda>a b. result_relevance b \<le> result_relevance a) [tips_result, secret_result]
   \<and> result_relevance tips_result = 90 \<and> result_relevance secret_result = 40"
proof -
  from search_threshold_sorted[OF ex_search_host]
  have "sorted_wrt (\<lambda>a b. result_relevance b \<le> result_relevance a) [tips_result, secret_result]"
    by blast
  then show ?thesis
    using ex_search_host
    by (simp add: result_relevance_def tips_result_def secret_result_def)
qed


section \<open>Encrypted PDF files\<close>





section \<open>Exit codes\<close>





section \<open>Query terms in the folder path\<close>




section \<open>The combined score\<close>




section \<open>Truncation of the combined score\<close>





end
